theory Spec2Isabelle
  imports Main
begin

section \<open>RecEthers: a reconnecting wrapper around a WebSocket provider\<close>

text \<open>
  The class \<^verbatim>\<open>RecEthers\<close> of \<^verbatim>\<open>src/ReconnectableEthers.js\<close> runs on the JavaScript
  event loop. Every callback of the source (a public method called from outside, the body of
  a \<^verbatim>\<open>setInterval\<close>, a handler of a socket signal) runs to completion before the next
  one starts, so the embedding is a state record together with one HOL function for each
  callback, and a function \<open>step\<close> that dispatches one stimulus of the event loop. Which
  stimulus comes next (which interval fires, which signal the socket delivers) is the choice
  of the environment: a run is a list of events.
\<close>

subsection \<open>Values of the environment\<close>

text \<open>
  Names of the four events the class emits, and their arguments (\<^verbatim>\<open>txHash\<close> for
  \<^verbatim>\<open>pending\<close>, \<^verbatim>\<open>blockNum\<close> for \<^verbatim>\<open>block\<close>, none for the other two).
\<close>

datatype evname = Connected | Disconnected | PendingEv | BlockEv

datatype arg = NoArg | TxHash string | BlockNum int

text \<open>
  A listener registered with \<^verbatim>\<open>on\<close> is code of the caller. The class sees only
  whether the call returns or throws; \<open>lid\<close> identifies the listener in the log.
\<close>

record listener =
  lid :: nat
  l_throws :: bool

text \<open>
  The four \<^verbatim>\<open>setInterval\<close> callbacks of the source, with the variables each closure
  captures (promises and intervals are identified by numbers):
  \<^item> \<open>Retry p\<close>: \<^verbatim>\<open>tempInterval\<close> of \<^verbatim>\<open>connect\<close>, capturing the \<^verbatim>\<open>resolve\<close> of
    the promise \<open>p\<close> that \<^verbatim>\<open>connect\<close> returned;
  \<^item> \<open>Poll rt p\<close>: \<^verbatim>\<open>tempInterval\<close> of \<^verbatim>\<open>__establishConnection\<close>; the retry callback
    \<open>rt\<close> of promise \<open>p\<close> awaits the result;
  \<^item> \<open>KeepAlive\<close>: \<^verbatim>\<open>__keepAliveInterval\<close> of \<^verbatim>\<open>__customOpen\<close>;
  \<^item> \<open>Wait p\<close>: \<^verbatim>\<open>tmpInterval\<close> of \<^verbatim>\<open>waitConnection\<close>, for its promise \<open>p\<close>.
\<close>

datatype timer = Retry nat | Poll nat nat | KeepAlive | Wait nat

text \<open>
  What an outside observer can see of a run: a \<^verbatim>\<open>WebSocketProvider\<close> constructed for
  a URI, \<^verbatim>\<open>close()\<close> called on a socket, an event emitted, a listener called, an
  exception that left a callback uncaught.
\<close>

datatype obs =
    ObsOpen nat "string option"
  | ObsClose nat
  | ObsEmit evname arg
  | ObsCall nat
  | ObsUncaught

datatype exn = TypeError | ReferenceError

datatype jsval = JsUndefined | JsBoolean bool | JsFunction

fun truthy :: "jsval \<Rightarrow> bool" where
  "truthy JsUndefined = False"
| "truthy (JsBoolean b) = b"
| "truthy JsFunction = True"

text \<open>
  What the source takes from outside the repository and does not define:
  \<^item> \<open>WebSocket_OPEN\<close>: the value of the global expression \<^verbatim>\<open>WebSocket.OPEN\<close>, or
    \<open>None\<close> where no global \<^verbatim>\<open>WebSocket\<close> exists (the file never imports one);
  \<^item> \<open>ctor_throws\<close>: whether \<^verbatim>\<open>new ethers.providers.WebSocketProvider(uri)\<close> throws
    for a given value of \<^verbatim>\<open>this.uri\<close>;
  \<^item> \<open>maxPending\<close>: how many callers \<^verbatim>\<open>AsyncLock\<close> queues on one key before
    \<^verbatim>\<open>acquire\<close> rejects.
\<close>

record env =
  WebSocket_OPEN :: "nat option"
  ctor_throws :: "string option \<Rightarrow> bool"
  maxPending :: nat

subsection \<open>The state\<close>

text \<open>
  The first seven fields are the fields of the object (\<open>priv_x\<close> stands for \<^verbatim>\<open>_x\<close>;
  \<^verbatim>\<open>undefined\<close> is \<open>None\<close>). \<open>provider\<close> is the index in \<open>sockets\<close> of the provider
  object the field refers to; \<open>sockets\<close> holds the \<^verbatim>\<open>readyState\<close> of the socket of
  every provider constructed so far. The remaining fields are the runtime: the active
  intervals, the promises handed out and those resolved, the lock on the key
  \<^verbatim>\<open>"startConnection"\<close>, the listeners registered on the emitter, and what has been
  observed.
\<close>

record state =
  uri :: "string option"
  MAX_TIMEOUT :: "int option"
  priv_isConnected :: bool
  priv_lastConnectionResponse :: nat
  priv_lastTransaction :: "int option"
  provider :: "nat option"
  keepAliveInterval :: "nat option"
  sockets :: "nat list"
  timers :: "(nat \<times> timer) list"
  next_timer :: nat
  next_promise :: nat
  resolved :: "nat list"
  lock_busy :: bool
  lock_queue :: "nat list"
  listeners :: "(evname \<times> listener) list"
  log :: "obs list"

text \<open>The constructor (lines 52 to 61).\<close>

definition constructor :: state where
  "constructor =
     \<lparr> uri = None, MAX_TIMEOUT = None, priv_isConnected = False,
       priv_lastConnectionResponse = 0, priv_lastTransaction = None,
       provider = None, keepAliveInterval = None, sockets = [],
       timers = [], next_timer = 0, next_promise = 0, resolved = [],
       lock_busy = False, lock_queue = [], listeners = [], log = [] \<rparr>"

subsection \<open>The runtime: intervals, promises, the emitter, the lock\<close>

definition setInterval :: "timer \<Rightarrow> state \<Rightarrow> nat \<times> state" where
  "setInterval k s =
     (next_timer s,
      s\<lparr>timers := timers s @ [(next_timer s, k)], next_timer := Suc (next_timer s)\<rparr>)"

definition clearInterval :: "nat \<Rightarrow> state \<Rightarrow> state" where
  "clearInterval t s = s\<lparr>timers := filter (\<lambda>(i, k). i \<noteq> t) (timers s)\<rparr>"

text \<open>Resolving a promise twice has no effect the second time.\<close>

definition resolve :: "nat \<Rightarrow> state \<Rightarrow> state" where
  "resolve p s = (if p \<in> set (resolved s) then s else s\<lparr>resolved := resolved s @ [p]\<rparr>)"

definition new_promise :: "state \<Rightarrow> nat \<times> state" where
  "new_promise s = (next_promise s, s\<lparr>next_promise := Suc (next_promise s)\<rparr>)"

definition observe :: "obs list \<Rightarrow> state \<Rightarrow> state" where
  "observe os s = s\<lparr>log := log s @ os\<rparr>"

text \<open>
  An exception that no \<^verbatim>\<open>catch\<close> of the source handles: the callback stops where it
  threw, and the assignments it made before stay.
\<close>

definition uncaught :: "state \<Rightarrow> state" where
  "uncaught s = observe [ObsUncaught] s"

text \<open>
  \<^verbatim>\<open>EventEmitter.emit\<close> of Node.js calls the listeners of the event one after the other,
  in the order of registration, in the caller's stack: the first listener that throws ends
  the loop, and the exception leaves \<^verbatim>\<open>emit\<close>. The class inherits \<^verbatim>\<open>emit\<close> unchanged
  (line 50) and never wraps a call of it in \<^verbatim>\<open>try\<close>.
\<close>

fun call_listeners :: "listener list \<Rightarrow> obs list \<times> bool" where
  "call_listeners [] = ([], False)"
| "call_listeners (l # ls) =
     (if l_throws l then ([ObsCall (lid l)], True)
      else (case call_listeners ls of (os, t) \<Rightarrow> (ObsCall (lid l) # os, t)))"

definition listeners_of :: "evname \<Rightarrow> state \<Rightarrow> listener list" where
  "listeners_of ev s = map snd (filter (\<lambda>(e, l). e = ev) (listeners s))"

text \<open>\<open>emit\<close> returns whether a listener threw, and the state with the calls observed.\<close>

definition emit :: "evname \<Rightarrow> arg \<Rightarrow> state \<Rightarrow> bool \<times> state" where
  "emit ev a s =
     (case call_listeners (listeners_of ev s) of
        (os, t) \<Rightarrow> (t, observe (ObsEmit ev a # os) s))"

definition on :: "evname \<Rightarrow> listener \<Rightarrow> state \<Rightarrow> state" where
  "on ev l s = s\<lparr>listeners := listeners s @ [(ev, l)]\<rparr>"

subsection \<open>The lock on the key \<^verbatim>\<open>"startConnection"\<close>\<close>

text \<open>
  \<^verbatim>\<open>AsyncLock.acquire(key, fn)\<close> of the package \<^verbatim>\<open>async-lock\<close> calls \<open>fn\<close> at once
  when the key is free, and queues it otherwise; the key is held until the promise that
  \<open>fn\<close> returned settles, and the next queued \<open>fn\<close> is called then. The \<open>fn\<close> that
  \<^verbatim>\<open>connect\<close> passes (lines 126 to 136) is an \<^verbatim>\<open>async\<close> function whose body is one
  \<^verbatim>\<open>setInterval\<close> and no \<^verbatim>\<open>await\<close>: its promise is settled as soon as the interval
  is registered, and the lock learns it in the next microtask (the event \<open>LockDone\<close>
  below).

  \<open>lock_exec p\<close> is that body, for the call of \<^verbatim>\<open>connect\<close> that returned promise \<open>p\<close>.
\<close>

definition lock_exec :: "nat \<Rightarrow> state \<Rightarrow> state" where
  "lock_exec p s = snd (setInterval (Retry p) s)"

definition lock_acquire :: "env \<Rightarrow> nat \<Rightarrow> state \<Rightarrow> state" where
  "lock_acquire E p s =
     (if lock_busy s then
        (if maxPending E \<le> length (lock_queue s) then uncaught s
         else s\<lparr>lock_queue := lock_queue s @ [p]\<rparr>)
      else lock_exec p (s\<lparr>lock_busy := True\<rparr>))"

definition lock_done :: "state \<Rightarrow> state" where
  "lock_done s =
     (if \<not> lock_busy s then s
      else (case lock_queue s of
              [] \<Rightarrow> s\<lparr>lock_busy := False\<rparr>
            | p # q \<Rightarrow> lock_exec p (s\<lparr>lock_queue := q\<rparr>)))"

subsection \<open>The methods of the class\<close>

text \<open>\<^verbatim>\<open>init\<close> (lines 68 to 71): two assignments, no check of either argument.\<close>

definition init :: "string \<Rightarrow> int \<Rightarrow> state \<Rightarrow> state" where
  "init u max_timeout s = s\<lparr>uri := Some u, MAX_TIMEOUT := Some max_timeout\<rparr>"

text \<open>
  \<^verbatim>\<open>__establishConnection\<close> (lines 76 to 115), called by the retry callback \<open>rt\<close> of
  promise \<open>p\<close>. The executor resets the two fields, constructs the provider, registers the
  handlers on it and starts the polling interval. Every provider ever constructed keeps
  its handlers: \<^verbatim>\<open>removeAllListeners\<close> is called on the new provider, which has none.
  When the constructor throws, the executor (an \<^verbatim>\<open>async\<close> function) ends there and the
  promise it was to settle stays pending.
\<close>

definition establishConnection :: "env \<Rightarrow> nat \<Rightarrow> nat \<Rightarrow> state \<Rightarrow> state" where
  "establishConnection E rt p s =
     (let s1 = s\<lparr>priv_lastConnectionResponse := 0, priv_lastTransaction := None\<rparr>
      in if ctor_throws E (uri s1) then uncaught s1
         else
           (let pid = length (sockets s1);
                s2 = observe [ObsOpen pid (uri s1)]
                       (s1\<lparr>provider := Some pid, sockets := sockets s1 @ [0]\<rparr>)
            in snd (setInterval (Poll rt p) s2)))"

text \<open>
  The polling callback of \<^verbatim>\<open>__establishConnection\<close> (lines 105 to 113), interval
  \<open>tid\<close>. On \<^verbatim>\<open>resolve()\<close> the retry callback that awaits the promise goes on (lines 132
  and 133): it clears its own interval \<open>rt\<close> and resolves the promise \<open>p\<close> of
  \<^verbatim>\<open>connect\<close>. On \<^verbatim>\<open>reject()\<close> its \<^verbatim>\<open>catch {}\<close> does nothing.
\<close>

definition establish_poll :: "nat \<Rightarrow> nat \<Rightarrow> nat \<Rightarrow> state \<Rightarrow> state" where
  "establish_poll tid rt p s =
     (if priv_lastConnectionResponse s = 0 then s
      else
        (let s1 = clearInterval tid s
         in if priv_lastConnectionResponse s1 = 1 then resolve p (clearInterval rt s1)
            else s1))"

text \<open>
  \<^verbatim>\<open>connect\<close> (lines 120 to 138). The function returns a new promise; its executor
  returns at once when \<^verbatim>\<open>_isConnected\<close> holds, without calling \<^verbatim>\<open>resolve\<close>, and
  asks for the lock otherwise.
\<close>

definition connect :: "env \<Rightarrow> state \<Rightarrow> nat \<times> state" where
  "connect E s =
     (case new_promise s of
        (p, s1) \<Rightarrow> if priv_isConnected s1 then (p, s1) else (p, lock_acquire E p s1))"

text \<open>
  \<^verbatim>\<open>reconnect\<close> (lines 143 to 153). \<^verbatim>\<open>this.provider._websocket.close()\<close> throws a
  \<^verbatim>\<open>TypeError\<close> when \<^verbatim>\<open>this.provider\<close> is \<^verbatim>\<open>undefined\<close>.
\<close>

definition reconnect :: "env \<Rightarrow> state \<Rightarrow> state" where
  "reconnect E s =
     (if priv_isConnected s then
        (case provider s of
           None \<Rightarrow> uncaught s
         | Some pid \<Rightarrow> observe [ObsClose pid] s)
      else snd (connect E s))"

text \<open>
  \<^verbatim>\<open>__customOpen\<close> (lines 161 to 187). \<^verbatim>\<open>emit("connected")\<close> is the last statement.
\<close>

definition customOpen :: "state \<Rightarrow> state" where
  "customOpen s =
     (if priv_isConnected s then s
      else
        (let s1 = (if priv_lastConnectionResponse s = 0
                   then s\<lparr>priv_lastConnectionResponse := 1\<rparr> else s);
             s2 = (case keepAliveInterval s1 of
                     Some t \<Rightarrow> clearInterval t s1
                   | None \<Rightarrow> s1)
         in case setInterval KeepAlive s2 of
              (t, s3) \<Rightarrow>
                (case emit Connected NoArg
                        (s3\<lparr>keepAliveInterval := Some t, priv_isConnected := True\<rparr>) of
                   (threw, s4) \<Rightarrow> if threw then uncaught s4 else s4)))"

text \<open>
  The keep-alive callback (lines 175 to 182), at time \<open>now\<close>. Where \<^verbatim>\<open>MAX_TIMEOUT\<close> is
  \<^verbatim>\<open>undefined\<close> the comparison \<^verbatim>\<open><\<close> is false.
\<close>

definition keepAlive :: "env \<Rightarrow> int \<Rightarrow> state \<Rightarrow> state" where
  "keepAlive E now s =
     (case priv_lastTransaction s of
        None \<Rightarrow> s
      | Some lastTx \<Rightarrow>
          if (case MAX_TIMEOUT s of Some m \<Rightarrow> now - lastTx < m | None \<Rightarrow> False) then s
          else reconnect E s)"

text \<open>
  \<^verbatim>\<open>__customClose\<close> (lines 194 to 210); the source does not read \<^verbatim>\<open>isError\<close>. An
  exception of a listener leaves \<^verbatim>\<open>emit\<close> and the handler before line 209.
\<close>

definition customClose :: "env \<Rightarrow> bool \<Rightarrow> state \<Rightarrow> state" where
  "customClose E isError s =
     (if priv_isConnected s = False then s
      else
        (let s1 = (if priv_lastConnectionResponse s = 0
                   then s\<lparr>priv_lastConnectionResponse := 2\<rparr> else s);
             s2 = (case keepAliveInterval s1 of
                     Some t \<Rightarrow> clearInterval t s1
                   | None \<Rightarrow> s1)
         in case emit Disconnected NoArg (s2\<lparr>priv_isConnected := False\<rparr>) of
              (threw, s3) \<Rightarrow> if threw then uncaught s3 else reconnect E s3))"

text \<open>The two listeners that \<^verbatim>\<open>__establishConnection\<close> puts on a provider (lines 95 to 99).\<close>

definition on_pending :: "string \<Rightarrow> int \<Rightarrow> state \<Rightarrow> state" where
  "on_pending txHash now s =
     (case emit PendingEv (TxHash txHash) (s\<lparr>priv_lastTransaction := Some now\<rparr>) of
        (threw, s1) \<Rightarrow> if threw then uncaught s1 else s1)"

definition on_block :: "int \<Rightarrow> state \<Rightarrow> state" where
  "on_block blockNum s =
     (case emit BlockEv (BlockNum blockNum) s of
        (threw, s1) \<Rightarrow> if threw then uncaught s1 else s1)"

text \<open>
  \<^verbatim>\<open>isConnected\<close> (line 214). \<^verbatim>\<open>&&\<close> evaluates its right operand only when the left
  one is true; the right operand reads \<^verbatim>\<open>this.provider._websocket.readyState\<close> first
  and \<^verbatim>\<open>WebSocket.OPEN\<close> second. The function writes nothing: it returns no state.
\<close>

definition isConnected :: "env \<Rightarrow> state \<Rightarrow> exn + bool" where
  "isConnected E s =
     (if \<not> priv_isConnected s then Inr False
      else
        (case provider s of
           None \<Rightarrow> Inl TypeError
         | Some pid \<Rightarrow>
             if length (sockets s) \<le> pid then Inl TypeError
             else
               (case WebSocket_OPEN E of
                  None \<Rightarrow> Inl ReferenceError
                | Some opn \<Rightarrow> Inr (sockets s ! pid = opn))))"

text \<open>
  \<^verbatim>\<open>waitConnection\<close> (lines 224 to 233) and its polling callback. Line 227 tests
  \<^verbatim>\<open>!this.isConnected\<close>: the value of the field, which is the arrow function of line
  214, not the result of calling it.
\<close>

definition isConnected_field :: "state \<Rightarrow> jsval" where
  "isConnected_field s = JsFunction"

definition waitConnection :: "state \<Rightarrow> nat \<times> state" where
  "waitConnection s =
     (case new_promise s of (p, s1) \<Rightarrow> (p, snd (setInterval (Wait p) s1)))"

definition wait_poll :: "nat \<Rightarrow> nat \<Rightarrow> state \<Rightarrow> state" where
  "wait_poll tid p s =
     (if \<not> truthy (isConnected_field s) then s
      else resolve p (clearInterval tid s))"

subsection \<open>The event loop\<close>

text \<open>
  One stimulus of the event loop:
  \<^item> a call of a public method from outside (\<open>CallInit\<close>, \<open>CallConnect\<close>,
    \<open>CallReconnect\<close>, \<open>CallWaitConnection\<close>, \<open>CallOn\<close>);
  \<^item> \<open>LockDone\<close>: the lock learns that the function it ran has settled;
  \<^item> \<open>Tick tid now\<close>: the interval \<open>tid\<close> fires at time \<open>now\<close> (\<^verbatim>\<open>Date.now()\<close>);
    a cleared interval does not fire;
  \<^item> \<open>WsOpen pid\<close>, \<open>WsError pid\<close>, \<open>WsClose pid\<close>: the socket of provider \<open>pid\<close>
    delivers the signal; \<open>WsReadyState pid r\<close>: its \<^verbatim>\<open>readyState\<close> becomes \<open>r\<close>;
  \<^item> \<open>Pending pid txHash now\<close>, \<open>Block pid blockNum\<close>: provider \<open>pid\<close> delivers a
    pending transaction at time \<open>now\<close>, or a new block.
  A provider that was never constructed delivers nothing.
\<close>

datatype event =
    CallInit string int
  | CallConnect
  | CallReconnect
  | CallWaitConnection
  | CallOn evname listener
  | LockDone
  | Tick nat int
  | WsOpen nat
  | WsError nat
  | WsClose nat
  | WsReadyState nat nat
  | Pending nat string int
  | Block nat int

definition fire :: "env \<Rightarrow> nat \<Rightarrow> int \<Rightarrow> state \<Rightarrow> state" where
  "fire E tid now s =
     (case map_of (timers s) tid of
        None \<Rightarrow> s
      | Some (Retry p) \<Rightarrow> establishConnection E tid p s
      | Some (Poll rt p) \<Rightarrow> establish_poll tid rt p s
      | Some KeepAlive \<Rightarrow> keepAlive E now s
      | Some (Wait p) \<Rightarrow> wait_poll tid p s)"

definition signal :: "nat \<Rightarrow> (state \<Rightarrow> state) \<Rightarrow> state \<Rightarrow> state" where
  "signal pid handler s = (if pid < length (sockets s) then handler s else s)"

fun step :: "env \<Rightarrow> state \<Rightarrow> event \<Rightarrow> state" where
  "step E s (CallInit u t) = init u t s"
| "step E s CallConnect = snd (connect E s)"
| "step E s CallReconnect = reconnect E s"
| "step E s CallWaitConnection = snd (waitConnection s)"
| "step E s (CallOn ev l) = on ev l s"
| "step E s LockDone = lock_done s"
| "step E s (Tick tid now) = fire E tid now s"
| "step E s (WsOpen pid) = signal pid customOpen s"
| "step E s (WsError pid) = signal pid (customClose E True) s"
| "step E s (WsClose pid) = signal pid (customClose E False) s"
| "step E s (WsReadyState pid r) = signal pid (\<lambda>s. s\<lparr>sockets := (sockets s)[pid := r]\<rparr>) s"
| "step E s (Pending pid txHash now) = signal pid (on_pending txHash now) s"
| "step E s (Block pid blockNum) = signal pid (on_block blockNum) s"

definition run :: "env \<Rightarrow> state \<Rightarrow> event list \<Rightarrow> state" where
  "run E s es = foldl (step E) s es"

subsection \<open>Observations on a run\<close>

text \<open>How often an event has been emitted so far.\<close>

fun is_emit :: "evname \<Rightarrow> obs \<Rightarrow> bool" where
  "is_emit ev (ObsEmit e a) = (e = ev)"
| "is_emit ev (ObsOpen pid u) = False"
| "is_emit ev (ObsClose pid) = False"
| "is_emit ev (ObsCall l) = False"
| "is_emit ev ObsUncaught = False"

definition emitted :: "evname \<Rightarrow> state \<Rightarrow> nat" where
  "emitted ev s = length (filter (is_emit ev) (log s))"

fun is_open :: "event \<Rightarrow> bool" where
  "is_open (WsOpen pid) = True"
| "is_open e = False"

fun is_pending :: "event \<Rightarrow> bool" where
  "is_pending (Pending pid txHash now) = True"
| "is_pending e = False"

text \<open>
  \<open>retry_tick s e\<close>: the event is a tick of a retry interval of \<^verbatim>\<open>connect\<close> that is
  active in \<open>s\<close>, the one callback that runs \<^verbatim>\<open>__establishConnection\<close>.
\<close>

fun retry_tick :: "state \<Rightarrow> event \<Rightarrow> bool" where
  "retry_tick s (Tick tid now) =
     (case map_of (timers s) tid of
        Some (Retry p) \<Rightarrow> True
      | Some (Poll rt p) \<Rightarrow> False
      | Some KeepAlive \<Rightarrow> False
      | Some (Wait p) \<Rightarrow> False
      | None \<Rightarrow> False)"
| "retry_tick s e = False"

text \<open>
  The transport handle reports the open state: the socket of the provider the object
  holds has the \<^verbatim>\<open>readyState\<close> \<open>opn\<close>.
\<close>

definition transport_open :: "nat \<Rightarrow> state \<Rightarrow> bool" where
  "transport_open opn s =
     (case provider s of
        None \<Rightarrow> False
      | Some pid \<Rightarrow> pid < length (sockets s) \<and> sockets s ! pid = opn)"

text \<open>
  The object holds a provider as soon as one socket exists, the provider it holds has a
  socket, and the flag \<^verbatim>\<open>_isConnected\<close> is set only after a socket exists.
\<close>

definition wf :: "state \<Rightarrow> bool" where
  "wf s =
     (case provider s of
        None \<Rightarrow> sockets s = [] \<and> \<not> priv_isConnected s
      | Some pid \<Rightarrow> pid < length (sockets s))"

text \<open>
  The promises that something in the state can still resolve or has resolved: those
  resolved, those whose call of \<^verbatim>\<open>connect\<close> waits for the lock, and those captured by
  an active interval. \<open>grows s t\<close>: every such promise of \<open>t\<close> is one of \<open>s\<close> or was
  created between \<open>s\<close> and \<open>t\<close>.
\<close>

fun timer_promises :: "timer \<Rightarrow> nat list" where
  "timer_promises (Retry p) = [p]"
| "timer_promises (Poll rt p) = [p]"
| "timer_promises KeepAlive = []"
| "timer_promises (Wait p) = [p]"

definition promises :: "state \<Rightarrow> nat set" where
  "promises s =
     set (resolved s) \<union> set (lock_queue s) \<union>
     set (concat (map (timer_promises \<circ> snd) (timers s)))"

definition grows :: "state \<Rightarrow> state \<Rightarrow> bool" where
  "grows s t \<longleftrightarrow>
     next_promise s \<le> next_promise t \<and>
     promises t \<subseteq> promises s \<union> {next_promise s ..< next_promise t}"

subsection \<open>Concrete environments and runs\<close>

text \<open>
  \<open>node_env\<close>: a Node.js process without a global \<^verbatim>\<open>WebSocket\<close>; \<open>ws_env\<close>: a runtime
  with one, where \<^verbatim>\<open>WebSocket.OPEN\<close> is 1. In both the provider's constructor throws
  exactly when \<^verbatim>\<open>this.uri\<close> is \<^verbatim>\<open>undefined\<close>, and the lock queues up to 1000 callers.
\<close>

definition node_env :: env where
  "node_env = \<lparr> WebSocket_OPEN = None, ctor_throws = (\<lambda>u. u = None), maxPending = 1000 \<rparr>"

definition ws_env :: env where
  "ws_env = \<lparr> WebSocket_OPEN = Some 1, ctor_throws = (\<lambda>u. u = None), maxPending = 1000 \<rparr>"

definition node_uri :: string where
  "node_uri = ''ws://node''"

text \<open>
  \<open>connecting\<close>: \<^verbatim>\<open>init\<close>, then \<^verbatim>\<open>connect()\<close>, then the microtask in which the lock
  is released. \<open>connected\<close>: then the retry interval fires at time 100 and constructs
  provider 0, its socket opens, and the polling interval of the attempt fires at time 200
  and resolves the promise of \<^verbatim>\<open>connect\<close>.
\<close>

definition connecting :: "event list" where
  "connecting = [CallInit node_uri 5000, CallConnect, LockDone]"

definition connected :: "event list" where
  "connected = connecting @ [Tick 0 100, WsReadyState 0 1, WsOpen 0, Tick 1 200]"

text \<open>
  \<open>reconnected\<close>: the socket of provider 0 then delivers an error; the handler emits
  \<^verbatim>\<open>disconnected\<close> and calls \<^verbatim>\<open>reconnect()\<close>, whose retry interval 3 fires at time 300
  and constructs provider 1; the socket of provider 1 opens, and the polling interval 4 of
  that attempt fires at time 400. Provider 0 has not yet delivered its close signal.
\<close>

definition reconnected :: "event list" where
  "reconnected =
     connected @ [WsError 0, LockDone, Tick 3 300, WsReadyState 1 1, WsOpen 1, Tick 4 400]"

text \<open>Two listeners on \<^verbatim>\<open>disconnected\<close>; the first one throws when \<open>t\<close> holds.\<close>

definition two_listeners :: "bool \<Rightarrow> event list" where
  "two_listeners t =
     [CallOn Disconnected \<lparr>lid = 0, l_throws = t\<rparr>,
      CallOn Disconnected \<lparr>lid = 1, l_throws = False\<rparr>]"

section \<open>Properties\<close>

subsection \<open>What each callback leaves unchanged\<close>

lemmas runtime_defs = setInterval_def clearInterval_def resolve_def new_promise_def observe_def
  uncaught_def emit_def on_def lock_exec_def lock_acquire_def lock_done_def

lemma call_listeners_no_emit: "filter (is_emit ev) (fst (call_listeners ls)) = []"
  by (induction ls) (auto simp: split_beta)

lemma emitted_emit:
  "filter (is_emit ev') (log (snd (emit ev a s))) =
     (if ev = ev' then filter (is_emit ev') (log s) @ [ObsEmit ev a]
      else filter (is_emit ev') (log s))"
  by (simp add: emit_def observe_def split_beta call_listeners_no_emit)

lemma emit_frame:
  "priv_isConnected (snd (emit ev a s)) = priv_isConnected s"
  "priv_lastTransaction (snd (emit ev a s)) = priv_lastTransaction s"
  "provider (snd (emit ev a s)) = provider s"
  "sockets (snd (emit ev a s)) = sockets s"
  "timers (snd (emit ev a s)) = timers s"
  "resolved (snd (emit ev a s)) = resolved s"
  "lock_queue (snd (emit ev a s)) = lock_queue s"
  "lock_busy (snd (emit ev a s)) = lock_busy s"
  "next_promise (snd (emit ev a s)) = next_promise s"
  "next_timer (snd (emit ev a s)) = next_timer s"
  by (simp_all add: emit_def observe_def split_beta)

lemma uncaught_frame:
  "priv_isConnected (uncaught s) = priv_isConnected s"
  "priv_lastTransaction (uncaught s) = priv_lastTransaction s"
  "provider (uncaught s) = provider s"
  "sockets (uncaught s) = sockets s"
  "timers (uncaught s) = timers s"
  "resolved (uncaught s) = resolved s"
  "lock_queue (uncaught s) = lock_queue s"
  "lock_busy (uncaught s) = lock_busy s"
  "next_promise (uncaught s) = next_promise s"
  "next_timer (uncaught s) = next_timer s"
  "filter (is_emit ev) (log (uncaught s)) = filter (is_emit ev) (log s)"
  by (simp_all add: uncaught_def observe_def)

lemma connect_frame:
  "priv_isConnected (snd (connect E s)) = priv_isConnected s"
  "priv_lastTransaction (snd (connect E s)) = priv_lastTransaction s"
  "provider (snd (connect E s)) = provider s"
  "sockets (snd (connect E s)) = sockets s"
  "resolved (snd (connect E s)) = resolved s"
  "next_promise (snd (connect E s)) = Suc (next_promise s)"
  "filter (is_emit ev) (log (snd (connect E s))) = filter (is_emit ev) (log s)"
  by (simp_all add: connect_def runtime_defs split_beta emitted_def)

lemma reconnect_frame:
  "priv_isConnected (reconnect E s) = priv_isConnected s"
  "priv_lastTransaction (reconnect E s) = priv_lastTransaction s"
  "provider (reconnect E s) = provider s"
  "sockets (reconnect E s) = sockets s"
  "resolved (reconnect E s) = resolved s"
  "filter (is_emit ev) (log (reconnect E s)) = filter (is_emit ev) (log s)"
  by (simp_all add: reconnect_def connect_frame uncaught_frame observe_def split: option.splits)

lemma establishConnection_frame:
  "priv_isConnected (establishConnection E rt p s) = priv_isConnected s"
  "priv_lastTransaction (establishConnection E rt p s) = None"
  "resolved (establishConnection E rt p s) = resolved s"
  "next_promise (establishConnection E rt p s) = next_promise s"
  "filter (is_emit ev) (log (establishConnection E rt p s)) = filter (is_emit ev) (log s)"
  by (simp_all add: establishConnection_def Let_def runtime_defs)

lemma establish_poll_frame:
  "priv_isConnected (establish_poll tid rt p s) = priv_isConnected s"
  "priv_lastTransaction (establish_poll tid rt p s) = priv_lastTransaction s"
  "provider (establish_poll tid rt p s) = provider s"
  "sockets (establish_poll tid rt p s) = sockets s"
  "next_promise (establish_poll tid rt p s) = next_promise s"
  "filter (is_emit ev) (log (establish_poll tid rt p s)) = filter (is_emit ev) (log s)"
  by (simp_all add: establish_poll_def Let_def runtime_defs)

lemma keepAlive_frame:
  "priv_isConnected (keepAlive E now s) = priv_isConnected s"
  "priv_lastTransaction (keepAlive E now s) = priv_lastTransaction s"
  "provider (keepAlive E now s) = provider s"
  "sockets (keepAlive E now s) = sockets s"
  "resolved (keepAlive E now s) = resolved s"
  "filter (is_emit ev) (log (keepAlive E now s)) = filter (is_emit ev) (log s)"
  by (simp_all add: keepAlive_def reconnect_frame split: option.splits)

lemma wait_poll_frame:
  "priv_isConnected (wait_poll tid p s) = priv_isConnected s"
  "priv_lastTransaction (wait_poll tid p s) = priv_lastTransaction s"
  "provider (wait_poll tid p s) = provider s"
  "sockets (wait_poll tid p s) = sockets s"
  "next_promise (wait_poll tid p s) = next_promise s"
  "filter (is_emit ev) (log (wait_poll tid p s)) = filter (is_emit ev) (log s)"
  by (simp_all add: wait_poll_def runtime_defs)

lemma fire_frame:
  "priv_isConnected (fire E tid now s) = priv_isConnected s"
  "filter (is_emit ev) (log (fire E tid now s)) = filter (is_emit ev) (log s)"
  by (simp_all add: fire_def establishConnection_frame establish_poll_frame keepAlive_frame
        wait_poll_frame split: option.splits timer.splits)

lemma customOpen_frame:
  "priv_lastTransaction (customOpen s) = priv_lastTransaction s"
  "provider (customOpen s) = provider s"
  "sockets (customOpen s) = sockets s"
  "resolved (customOpen s) = resolved s"
  "next_promise (customOpen s) = next_promise s"
  by (simp_all add: customOpen_def Let_def split_beta emit_frame uncaught_frame
        setInterval_def clearInterval_def split: option.splits)

lemma customClose_frame:
  "priv_lastTransaction (customClose E b s) = priv_lastTransaction s"
  "provider (customClose E b s) = provider s"
  "sockets (customClose E b s) = sockets s"
  "resolved (customClose E b s) = resolved s"
  by (simp_all add: customClose_def Let_def split_beta emit_frame uncaught_frame
        reconnect_frame clearInterval_def split: option.splits)

lemma customClose_ignored: "\<not> priv_isConnected s \<Longrightarrow> customClose E b s = s"
  by (simp add: customClose_def)

lemma customClose_drop:
  "priv_isConnected s \<Longrightarrow>
   \<not> priv_isConnected (customClose E b s) \<and>
   filter (is_emit Disconnected) (log (customClose E b s)) =
     filter (is_emit Disconnected) (log s) @ [ObsEmit Disconnected NoArg]"
  by (simp add: customClose_def Let_def split_beta emit_frame uncaught_frame
        reconnect_frame emitted_emit clearInterval_def split: option.splits)

lemma on_pending_frame:
  "priv_isConnected (on_pending tx now s) = priv_isConnected s"
  "priv_lastTransaction (on_pending tx now s) = Some now"
  "provider (on_pending tx now s) = provider s"
  "sockets (on_pending tx now s) = sockets s"
  "timers (on_pending tx now s) = timers s"
  "resolved (on_pending tx now s) = resolved s"
  "lock_queue (on_pending tx now s) = lock_queue s"
  "next_promise (on_pending tx now s) = next_promise s"
  "filter (is_emit Disconnected) (log (on_pending tx now s)) = filter (is_emit Disconnected) (log s)"
  by (simp_all add: on_pending_def split_beta emit_frame uncaught_frame emitted_emit
        )

lemma on_block_frame:
  "priv_isConnected (on_block n s) = priv_isConnected s"
  "priv_lastTransaction (on_block n s) = priv_lastTransaction s"
  "provider (on_block n s) = provider s"
  "sockets (on_block n s) = sockets s"
  "timers (on_block n s) = timers s"
  "resolved (on_block n s) = resolved s"
  "lock_queue (on_block n s) = lock_queue s"
  "next_promise (on_block n s) = next_promise s"
  "filter (is_emit Disconnected) (log (on_block n s)) = filter (is_emit Disconnected) (log s)"
  by (simp_all add: on_block_def split_beta emit_frame uncaught_frame emitted_emit)

lemma lock_done_frame:
  "priv_isConnected (lock_done s) = priv_isConnected s"
  "priv_lastTransaction (lock_done s) = priv_lastTransaction s"
  "provider (lock_done s) = provider s"
  "sockets (lock_done s) = sockets s"
  "resolved (lock_done s) = resolved s"
  "next_promise (lock_done s) = next_promise s"
  "filter (is_emit ev) (log (lock_done s)) = filter (is_emit ev) (log s)"
  by (simp_all add: lock_done_def lock_exec_def setInterval_def split: list.splits)

lemma waitConnection_frame:
  "priv_isConnected (snd (waitConnection s)) = priv_isConnected s"
  "priv_lastTransaction (snd (waitConnection s)) = priv_lastTransaction s"
  "provider (snd (waitConnection s)) = provider s"
  "sockets (snd (waitConnection s)) = sockets s"
  "resolved (snd (waitConnection s)) = resolved s"
  "log (snd (waitConnection s)) = log s"
  "filter (is_emit ev) (log (snd (waitConnection s))) = filter (is_emit ev) (log s)"
  by (simp_all add: waitConnection_def new_promise_def setInterval_def)

lemma step_stays_disconnected:
  "\<not> priv_isConnected s \<Longrightarrow> \<not> is_open e \<Longrightarrow>
   \<not> priv_isConnected (step E s e) \<and>
   filter (is_emit Disconnected) (log (step E s e)) = filter (is_emit Disconnected) (log s)"
  by (cases e)
     (simp_all add: signal_def connect_frame reconnect_frame fire_frame customClose_ignored
        on_pending_frame on_block_frame lock_done_frame waitConnection_frame init_def on_def)

lemma run_stays_disconnected:
  "\<not> priv_isConnected s \<Longrightarrow> \<forall>e\<in>set es. \<not> is_open e \<Longrightarrow>
   \<not> priv_isConnected (run E s es) \<and>
   filter (is_emit Disconnected) (log (run E s es)) = filter (is_emit Disconnected) (log s)"
proof (induction es arbitrary: s)
  case Nil
  then show ?case by (simp add: run_def)
next
  case (Cons e es)
  from Cons.prems have 1: "\<not> priv_isConnected (step E s e)"
    and 2: "filter (is_emit Disconnected) (log (step E s e)) =
            filter (is_emit Disconnected) (log s)"
    using step_stays_disconnected [of s e E] by simp_all
  from Cons.IH [OF 1] Cons.prems(2) 2 show ?case by (simp add: run_def)
qed

subsection \<open>A provider exists whenever the flag is set\<close>

lemma wf_same:
  "provider t = provider s \<Longrightarrow> sockets t = sockets s \<Longrightarrow>
   priv_isConnected t = priv_isConnected s \<Longrightarrow> wf t = wf s"
  by (simp add: wf_def split: option.splits)

lemma wf_establishConnection: "wf s \<Longrightarrow> wf (establishConnection E rt p s)"
  by (simp add: wf_def establishConnection_def Let_def runtime_defs split: option.splits)

lemma wf_customOpen: "wf s \<Longrightarrow> sockets s \<noteq> [] \<Longrightarrow> wf (customOpen s)"
  by (auto simp: wf_def customOpen_frame split: option.splits)

lemma wf_fire: "wf s \<Longrightarrow> wf (fire E tid now s)"
  by (simp add: fire_def wf_establishConnection wf_same [OF establish_poll_frame(3,4,1)]
        wf_same [OF keepAlive_frame(3,4,1)] wf_same [OF wait_poll_frame(3,4,1)]
        split: option.splits timer.splits)

lemma wf_customClose: "wf s \<Longrightarrow> wf (customClose E b s)"
proof (cases "priv_isConnected s")
  case True
  assume "wf s"
  with True customClose_drop [of s E b] show ?thesis
    by (auto simp: wf_def customClose_frame split: option.splits)
qed (simp add: customClose_ignored)

lemma wf_step: "wf s \<Longrightarrow> wf (step E s e)"
proof (cases e)
  case (WsOpen pid)
  then show "wf s \<Longrightarrow> wf (step E s e)"
    by (auto simp: signal_def intro: wf_customOpen)
next
  case (WsReadyState pid r)
  then show "wf s \<Longrightarrow> wf (step E s e)"
    by (auto simp: signal_def wf_def split: option.splits)
next
  case (CallInit u t)
  then show "wf s \<Longrightarrow> wf (step E s e)" by (simp add: wf_def init_def split: option.splits)
next
  case (CallOn ev l)
  then show "wf s \<Longrightarrow> wf (step E s e)" by (simp add: wf_def on_def split: option.splits)
qed (simp_all add: signal_def wf_fire wf_customClose wf_same [OF connect_frame(3,4,1)]
       wf_same [OF reconnect_frame(3,4,1)] wf_same [OF on_pending_frame(3,4,1)]
       wf_same [OF on_block_frame(3,4,1)] wf_same [OF lock_done_frame(3,4,1)]
       wf_same [OF waitConnection_frame(3,4,1)])

lemma wf_run: "wf s \<Longrightarrow> wf (run E s es)"
  by (induction es arbitrary: s) (simp_all add: run_def wf_step)

lemma wf_constructor: "wf constructor"
  by (simp add: wf_def constructor_def)

lemma wf_reachable: "wf (run E constructor es)"
  by (rule wf_run [OF wf_constructor])

subsection \<open>The activity marker\<close>

lemma priv_lastTransaction_step:
  "priv_lastTransaction (step E s e) =
     (case e of
        Pending pid txHash now \<Rightarrow>
          if pid < length (sockets s) then Some now else priv_lastTransaction s
      | Tick tid now \<Rightarrow>
          (case map_of (timers s) tid of
             Some (Retry p) \<Rightarrow> None
           | _ \<Rightarrow> priv_lastTransaction s)
      | _ \<Rightarrow> priv_lastTransaction s)"
  by (cases e)
     (simp_all add: signal_def fire_def connect_frame reconnect_frame customClose_frame
        customOpen_frame on_pending_frame on_block_frame lock_done_frame waitConnection_frame
        establishConnection_frame establish_poll_frame keepAlive_frame wait_poll_frame
        init_def on_def split: option.splits timer.splits)

lemma marker_stays_reset:
  "priv_lastTransaction s = None \<Longrightarrow> \<forall>e\<in>set es. \<not> is_pending e \<Longrightarrow>
   priv_lastTransaction (run E s es) = None"
proof (induction es arbitrary: s)
  case Nil
  then show ?case by (simp add: run_def)
next
  case (Cons e es)
  from Cons.prems have "priv_lastTransaction (step E s e) = None"
    by (cases e) (simp_all add: priv_lastTransaction_step del: step.simps split: option.splits timer.splits)
  from Cons.IH [OF this] Cons.prems(2) show ?case by (simp add: run_def)
qed

lemma on_pending_emits:
  "emitted PendingEv (on_pending tx now s) = Suc (emitted PendingEv s)"
  by (simp add: emitted_def on_pending_def split_beta uncaught_def observe_def emitted_emit)

lemma on_block_emits:
  "emitted BlockEv (on_block n s) = Suc (emitted BlockEv s)"
  by (simp add: emitted_def on_block_def split_beta uncaught_def observe_def emitted_emit)

subsection \<open>Promises that nothing can resolve\<close>

lemma grows_refl: "grows s s"
  by (simp add: grows_def)

lemma grows_trans: "grows s t \<Longrightarrow> grows t u \<Longrightarrow> grows s u"
  unfolding grows_def by (auto simp: subset_iff)

lemma grows_same:
  "next_promise t = next_promise s \<Longrightarrow> resolved t = resolved s \<Longrightarrow>
   lock_queue t = lock_queue s \<Longrightarrow> timers t = timers s \<Longrightarrow> grows s t"
  by (simp add: grows_def promises_def)

lemma grows_emit: "grows s (snd (emit ev a s))"
  by (rule grows_same) (simp_all add: emit_frame)

lemma grows_uncaught: "grows s (uncaught s)"
  by (rule grows_same) (simp_all add: uncaught_frame)

lemma grows_clearInterval: "grows s (clearInterval t s)"
  by (auto simp: grows_def promises_def clearInterval_def)

lemma grows_known:
  "p \<in> promises s \<Longrightarrow> next_promise t = next_promise s \<Longrightarrow>
   promises t \<subseteq> insert p (promises s) \<Longrightarrow> grows s t"
  by (auto simp: grows_def)

lemma timer_known: "map_of (timers s) tid = Some k \<Longrightarrow> set (timer_promises k) \<subseteq> promises s"
  by (force simp: promises_def dest: map_of_SomeD)

lemma grows_connect: "grows s (snd (connect E s))"
  by (auto simp: grows_def promises_def connect_def runtime_defs)

lemma grows_reconnect: "grows s (reconnect E s)"
  by (auto simp: reconnect_def grows_connect intro: grows_same
        simp: uncaught_frame observe_def split: option.splits)

lemma grows_establishConnection:
  "p \<in> promises s \<Longrightarrow> grows s (establishConnection E rt p s)"
  by (rule grows_known)
     (auto simp: promises_def establishConnection_def Let_def runtime_defs)

lemma grows_establish_poll:
  "p \<in> promises s \<Longrightarrow> grows s (establish_poll tid rt p s)"
  by (rule grows_known)
     (auto simp: promises_def establish_poll_def Let_def runtime_defs)

lemma grows_wait_poll: "p \<in> promises s \<Longrightarrow> grows s (wait_poll tid p s)"
  by (rule grows_known) (auto simp: promises_def wait_poll_def runtime_defs)

lemma grows_keepAlive: "grows s (keepAlive E now s)"
  by (simp add: keepAlive_def grows_refl grows_reconnect split: option.splits)

lemma grows_fire: "grows s (fire E tid now s)"
proof (cases "map_of (timers s) tid")
  case None
  then show ?thesis by (simp add: fire_def grows_refl)
next
  case (Some k)
  with timer_known [OF Some] show ?thesis
    by (cases k)
       (simp_all add: fire_def grows_establishConnection grows_establish_poll
          grows_keepAlive grows_wait_poll)
qed

lemma grows_customOpen: "grows s (customOpen s)"
  by (auto simp: grows_def promises_def customOpen_def Let_def split_beta emit_frame
        uncaught_frame setInterval_def clearInterval_def split: option.splits)

lemma grows_customClose: "grows s (customClose E b s)"
proof (cases "priv_isConnected s")
  case True
  let ?s1 = "if priv_lastConnectionResponse s = 0
             then s\<lparr>priv_lastConnectionResponse := 2\<rparr> else s"
  let ?s2 = "case keepAliveInterval ?s1 of Some t \<Rightarrow> clearInterval t ?s1 | None \<Rightarrow> ?s1"
  let ?s3 = "snd (emit Disconnected NoArg (?s2\<lparr>priv_isConnected := False\<rparr>))"
  have 1: "grows s ?s1" by (rule grows_same) simp_all
  have 2: "grows ?s1 ?s2" by (simp add: grows_refl grows_clearInterval split: option.splits)
  have 3: "grows ?s2 (?s2\<lparr>priv_isConnected := False\<rparr>)" by (rule grows_same) simp_all
  have 4: "grows s ?s3"
    by (rule grows_trans [OF grows_trans [OF grows_trans [OF 1 2] 3] grows_emit])
  have "grows s (uncaught ?s3)" "grows s (reconnect E ?s3)"
    by (rule grows_trans [OF 4 grows_uncaught], rule grows_trans [OF 4 grows_reconnect])
  with True show ?thesis by (simp add: customClose_def Let_def split_beta)
qed (simp add: customClose_ignored grows_refl)

lemma grows_lock_done: "grows s (lock_done s)"
  by (auto simp: grows_def promises_def lock_done_def lock_exec_def setInterval_def
        split: list.splits)

lemma grows_waitConnection: "grows s (snd (waitConnection s))"
  by (auto simp: grows_def promises_def waitConnection_def new_promise_def setInterval_def)

lemma grows_step: "grows s (step E s e)"
  by (cases e)
     (simp_all add: signal_def grows_refl grows_connect grows_reconnect grows_fire
        grows_customOpen grows_customClose grows_lock_done grows_waitConnection
        grows_same on_pending_frame on_block_frame init_def on_def)

lemma grows_run: "grows s (run E s es)"
proof (induction es arbitrary: s)
  case Nil
  show ?case by (simp add: run_def grows_refl)
next
  case (Cons e es)
  from grows_trans [OF grows_step Cons.IH] show ?case by (simp add: run_def)
qed

lemma promises_below_next: "p \<in> promises (run E constructor es) \<Longrightarrow> p < next_promise (run E constructor es)"
  using grows_run [of constructor E es]
  by (auto simp: grows_def promises_def constructor_def)

lemma connect_connected: "priv_isConnected s \<Longrightarrow> connect E s = (next_promise s, s\<lparr>next_promise := Suc (next_promise s)\<rparr>)"
  by (simp add: connect_def new_promise_def)

subsection \<open>The listeners that an emission calls\<close>




subsection \<open>Evaluating concrete runs\<close>

lemmas method_defs = init_def establishConnection_def establish_poll_def connect_def
  reconnect_def customOpen_def keepAlive_def customClose_def on_pending_def on_block_def
  waitConnection_def wait_poll_def fire_def signal_def isConnected_field_def

lemmas eval_defs = run_def constructor_def node_env_def ws_env_def node_uri_def
  connecting_def connected_def reconnected_def two_listeners_def method_defs runtime_defs listeners_of_def
  Let_def

lemma run_connecting:
  "run E constructor connecting =
     \<lparr> uri = Some node_uri, MAX_TIMEOUT = Some 5000, priv_isConnected = False,
       priv_lastConnectionResponse = 0, priv_lastTransaction = None,
       provider = None, keepAliveInterval = None, sockets = [],
       timers = [(0, Retry 0)], next_timer = 1, next_promise = 1, resolved = [],
       lock_busy = False, lock_queue = [], listeners = [], log = [] \<rparr>"
  by (simp add: eval_defs)

lemma run_connected:
  "run node_env constructor connected =
     \<lparr> uri = Some node_uri, MAX_TIMEOUT = Some 5000, priv_isConnected = True,
       priv_lastConnectionResponse = 1, priv_lastTransaction = None,
       provider = Some 0, keepAliveInterval = Some 2, sockets = [1],
       timers = [(2, KeepAlive)], next_timer = 3, next_promise = 1, resolved = [0],
       lock_busy = False, lock_queue = [], listeners = [],
       log = [ObsOpen 0 (Some node_uri), ObsEmit Connected NoArg] \<rparr>"
  by (simp add: eval_defs)

section \<open>The claims\<close>

subsection \<open>C1: a second call of connect\<close>

text \<open>
  Claim C1 says that a second \<^verbatim>\<open>connect()\<close>, called while the first has not resolved
  and the object is not connected, constructs no further provider. The run below is
  \<^verbatim>\<open>init\<close>, \<^verbatim>\<open>connect()\<close>, \<^verbatim>\<open>connect()\<close>, and then the two retry intervals firing
  at times 100 and 150. The lock is free again as soon as the first call has registered its
  interval, so the second call registers its own. Both intervals construct a provider:
  two are observed, both attempts poll, no promise is resolved and the object is not
  connected.
\<close>

theorem second_connect_opens_second_transport:
  "lock_busy (run node_env constructor connecting) = False \<and>
   log (run node_env constructor
          (connecting @ [CallConnect, LockDone, Tick 0 100, Tick 1 150])) =
     [ObsOpen 0 (Some node_uri), ObsOpen 1 (Some node_uri)] \<and>
   timers (run node_env constructor
             (connecting @ [CallConnect, LockDone, Tick 0 100, Tick 1 150])) =
     [(0, Retry 0), (1, Retry 1), (2, Poll 0 0), (3, Poll 1 1)] \<and>
   resolved (run node_env constructor
               (connecting @ [CallConnect, LockDone, Tick 0 100, Tick 1 150])) = [] \<and>
   priv_isConnected (run node_env constructor
                       (connecting @ [CallConnect, LockDone, Tick 0 100, Tick 1 150])) = False"
  by (simp add: eval_defs)

subsection \<open>C2: one disconnected event for one drop\<close>

text \<open>
  Claim C2 says that an error and a close signal for the same drop of an established
  connection emit \<^verbatim>\<open>disconnected\<close> exactly once, the second signal being ignored. In
  the run below the socket of provider 0 delivers its error, the object reconnects through
  provider 1, and only then the socket of provider 0 delivers its close. Before that close
  \<^verbatim>\<open>disconnected\<close> has been emitted once and the object is connected through provider
  1. The handlers of every socket test the one flag \<^verbatim>\<open>_isConnected\<close> (line 196), so
  the late close is not ignored: \<^verbatim>\<open>disconnected\<close> is emitted a second time for the one
  drop and the flag is cleared, although the socket of provider 1 is still open.
\<close>

theorem late_close_emits_disconnected_twice:
  "emitted Disconnected (run node_env constructor connected) = 0 \<and>
   emitted Disconnected (run node_env constructor reconnected) = 1 \<and>
   priv_isConnected (run node_env constructor reconnected) = True \<and>
   provider (run node_env constructor reconnected) = Some 1 \<and>
   emitted Disconnected (run node_env constructor (reconnected @ [WsClose 0])) = 2 \<and>
   priv_isConnected (run node_env constructor (reconnected @ [WsClose 0])) = False \<and>
   sockets (run node_env constructor (reconnected @ [WsClose 0])) ! 1 = 1"
  by (simp add: eval_defs emitted_def)

text \<open>
  Where no socket opens between the two signals, the guard of line 196 does what the
  comment of line 19 says: the handler of the first signal emits the event once and clears
  the flag, and the handler of the second signal returns the state as it found it.
\<close>

lemma drop_signals_without_open:
  assumes "priv_isConnected s" and "\<forall>e\<in>set es. \<not> is_open e"
  shows "emitted Disconnected (customClose E b s) = Suc (emitted Disconnected s) \<and>
         \<not> priv_isConnected (customClose E b s) \<and>
         \<not> priv_isConnected (run E (customClose E b s) es) \<and>
         customClose E b' (run E (customClose E b s) es) = run E (customClose E b s) es \<and>
         emitted Disconnected (customClose E b' (run E (customClose E b s) es)) =
           Suc (emitted Disconnected s)"
proof -
  let ?s1 = "customClose E b s"
  from assms(1) have d: "\<not> priv_isConnected ?s1"
    and c: "emitted Disconnected ?s1 = Suc (emitted Disconnected s)"
    using customClose_drop [of s E b] by (simp_all add: emitted_def)
  from run_stays_disconnected [OF d assms(2)]
  have r: "\<not> priv_isConnected (run E ?s1 es)"
    and k: "emitted Disconnected (run E ?s1 es) = emitted Disconnected ?s1"
    by (simp_all add: emitted_def)
  from r have "customClose E b' (run E ?s1 es) = run E ?s1 es" by (rule customClose_ignored)
  with d c r k show ?thesis by simp
qed

subsection \<open>C3: connect on a connected object\<close>

text \<open>
  Claim C3 says that \<^verbatim>\<open>connect()\<close> on a connected object hands back a promise that
  resolves. In every connected state that a run can reach, the call does no connection
  work (it only creates the promise), and no later run of the event loop resolves that
  promise: the executor returned without calling \<^verbatim>\<open>resolve\<close> and no closure holds it.
\<close>

theorem connect_when_connected_stays_pending:
  assumes "priv_isConnected (run E constructor es)"
  shows "snd (connect E (run E constructor es)) =
           (run E constructor es)\<lparr>next_promise := Suc (next_promise (run E constructor es))\<rparr> \<and>
         fst (connect E (run E constructor es)) \<notin>
           set (resolved (run E (snd (connect E (run E constructor es))) es'))"
proof -
  let ?s = "run E constructor es"
  let ?p = "next_promise ?s"
  let ?t = "?s\<lparr>next_promise := Suc ?p\<rparr>"
  have c: "connect E ?s = (?p, ?t)" using assms by (rule connect_connected)
  have "?p \<notin> promises ?s" using promises_below_next [of ?p E es] by auto
  then have "?p \<notin> promises ?t" by (simp add: promises_def)
  moreover have "?p < next_promise ?t" by simp
  ultimately have "?p \<notin> promises (run E ?t es')"
    using grows_run [of ?t E es'] by (auto simp: grows_def)
  then have "?p \<notin> set (resolved (run E ?t es'))" by (simp add: promises_def)
  with c show ?thesis by simp
qed

theorem connect_when_connected_stays_pending_witness:
  "priv_isConnected (run node_env constructor connected) \<and>
   fst (connect node_env (run node_env constructor connected)) = 1 \<and>
   1 \<notin> set (resolved
              (run node_env (snd (connect node_env (run node_env constructor connected)))
                 [Tick 2 300, LockDone, Tick 0 400]))"
  using connect_when_connected_stays_pending
          [of node_env connected "[Tick 2 300, LockDone, Tick 0 400]"]
  by (simp add: run_connected eval_defs)

subsection \<open>C4: waitConnection\<close>

text \<open>
  Claim C4 says that \<^verbatim>\<open>waitConnection()\<close> does not resolve while \<^verbatim>\<open>isConnected()\<close>
  is false. On a new object \<^verbatim>\<open>isConnected()\<close> is false before and after the first tick
  of the polling interval, and that tick resolves the promise: the test of line 227 reads
  the field, which holds a function, and never calls it.
\<close>

theorem waitConnection_resolves_while_disconnected:
  "isConnected node_env (run node_env constructor [CallWaitConnection]) = Inr False \<and>
   resolved (run node_env constructor [CallWaitConnection]) = [] \<and>
   isConnected node_env (run node_env constructor [CallWaitConnection, Tick 0 100]) = Inr False \<and>
   resolved (run node_env constructor [CallWaitConnection, Tick 0 100]) = [0]"
  by (simp add: eval_defs isConnected_def)

subsection \<open>C5: init\<close>

text \<open>
  Claim C5 says that \<^verbatim>\<open>init\<close> fails for an empty address or a timeout that is not
  positive. It stores both: the empty address with timeout 1000, and a timeout of 0.
\<close>

theorem init_accepts_empty_address:
  "step node_env constructor (CallInit [] 1000) =
     constructor\<lparr>uri := Some [], MAX_TIMEOUT := Some 1000\<rparr> \<and>
   step node_env constructor (CallInit node_uri 0) =
     constructor\<lparr>uri := Some node_uri, MAX_TIMEOUT := Some 0\<rparr>"
  by (simp add: init_def)

text \<open>
  Claim C5, amended: \<^verbatim>\<open>init\<close> never fails. For every address and every timeout it
  stores the two values and does nothing else: the state after the call is the state
  before it with the two fields set.
\<close>

theorem init_stores_configuration:
  "step E s (CallInit u t) = s\<lparr>uri := Some u, MAX_TIMEOUT := Some t\<rparr>"
  by (simp add: init_def)

subsection \<open>C6: the activity marker\<close>

text \<open>
  Claim C6 says that a new block updates \<^verbatim>\<open>_lastTransaction\<close> as a pending transaction
  does. On a connected object that has seen no transaction, a new block is emitted to the
  listeners and the marker is still \<^verbatim>\<open>undefined\<close>.
\<close>

theorem block_leaves_marker_unset:
  "last (log (run node_env constructor (connected @ [Block 0 7]))) = ObsEmit BlockEv (BlockNum 7) \<and>
   priv_lastTransaction (run node_env constructor (connected @ [Block 0 7])) = None"
  by (simp add: eval_defs)

text \<open>
  Claim C6, amended: a pending transaction from the constructed provider the object holds sets the
  marker to the current time and is emitted as \<^verbatim>\<open>pending\<close>; a new block from that
  provider is emitted as \<^verbatim>\<open>block\<close> and leaves the marker as it is; a tick of a retry
  interval of \<^verbatim>\<open>connect\<close>, which runs \<^verbatim>\<open>__establishConnection\<close>, resets the marker
  to \<^verbatim>\<open>undefined\<close>; every other event that is not a pending transaction leaves the
  marker as it is.
\<close>

theorem only_pending_advances_marker:
  "(provider s = Some pid \<longrightarrow> pid < length (sockets s) \<longrightarrow>
      priv_lastTransaction (step E s (Pending pid txHash now)) = Some now \<and>
      emitted PendingEv (step E s (Pending pid txHash now)) = Suc (emitted PendingEv s)) \<and>
   (provider s = Some pid \<longrightarrow> pid < length (sockets s) \<longrightarrow>
      priv_lastTransaction (step E s (Block pid blockNum)) = priv_lastTransaction s \<and>
      emitted BlockEv (step E s (Block pid blockNum)) = Suc (emitted BlockEv s)) \<and>
   (retry_tick s e \<longrightarrow> priv_lastTransaction (step E s e) = None) \<and>
   (\<not> is_pending e \<longrightarrow> \<not> retry_tick s e \<longrightarrow>
      priv_lastTransaction (step E s e) = priv_lastTransaction s)"
proof -
  have 1: "pid < length (sockets s) \<Longrightarrow>
      emitted PendingEv (step E s (Pending pid txHash now)) = Suc (emitted PendingEv s)"
    by (simp add: signal_def on_pending_emits)
  have 2: "pid < length (sockets s) \<Longrightarrow>
      emitted BlockEv (step E s (Block pid blockNum)) = Suc (emitted BlockEv s)"
    by (simp add: signal_def on_block_emits)
  have 3: "retry_tick s e \<Longrightarrow> priv_lastTransaction (step E s e) = None"
    by (cases e)
       (simp_all add: priv_lastTransaction_step del: step.simps
          split: option.splits timer.splits)
  have 4: "\<not> is_pending e \<Longrightarrow> \<not> retry_tick s e \<Longrightarrow>
      priv_lastTransaction (step E s e) = priv_lastTransaction s"
    by (cases e)
       (simp_all add: priv_lastTransaction_step del: step.simps
          split: option.splits timer.splits)
  from 1 2 3 4 show ?thesis
    by (simp add: priv_lastTransaction_step del: step.simps)
qed

theorem only_pending_advances_marker_witness:
  "provider (run node_env constructor connected) = Some 0 \<and>
   0 < length (sockets (run node_env constructor connected)) \<and>
   priv_lastTransaction
     (step node_env (run node_env constructor connected) (Pending 0 ''0xab'' 1000)) = Some 1000 \<and>
   emitted PendingEv
     (step node_env (run node_env constructor connected) (Pending 0 ''0xab'' 1000)) = 1 \<and>
   priv_lastTransaction (step node_env (run node_env constructor connected) (Block 0 7)) = None \<and>
   emitted BlockEv (step node_env (run node_env constructor connected) (Block 0 7)) = 1 \<and>
   retry_tick (run node_env constructor (connecting @ [Pending 0 ''0xab'' 1000])) (Tick 0 100) \<and>
   priv_lastTransaction
     (step node_env (run node_env constructor (connecting @ [Pending 0 ''0xab'' 1000]))
        (Tick 0 100)) = None \<and>
   \<not> is_pending (WsClose 0) \<and>
   \<not> retry_tick (run node_env constructor (connected @ [Pending 0 ''0xab'' 1000])) (WsClose 0) \<and>
   priv_lastTransaction
     (step node_env (run node_env constructor (connected @ [Pending 0 ''0xab'' 1000]))
        (WsClose 0)) = Some 1000"
  using only_pending_advances_marker
          [of "run node_env constructor connected" 0 node_env "''0xab''" 1000 7 "Block 0 7"]
    only_pending_advances_marker
          [of "run node_env constructor (connecting @ [Pending 0 ''0xab'' 1000])" 0 node_env
              "''0xab''" 1000 7 "Tick 0 100"]
    only_pending_advances_marker
          [of "run node_env constructor (connected @ [Pending 0 ''0xab'' 1000])" 0 node_env
              "''0xab''" 1000 7 "WsClose 0"]
  by (simp add: eval_defs emitted_def)

subsection \<open>C7: no reconnect before the first activity\<close>

text \<open>
  Claim C7: after \<^verbatim>\<open>__establishConnection\<close> has opened a connection, and as long as no
  pending transaction arrives, a check of the keep-alive interval changes nothing,
  whatever the time \<open>now\<close> is and whatever else happened in between: it calls neither
  \<^verbatim>\<open>close()\<close> nor \<^verbatim>\<open>connect()\<close>.
\<close>

theorem keepAlive_grace_period:
  assumes "\<forall>e\<in>set es. \<not> is_pending e"
  shows "keepAlive E now (run E (establishConnection E rt p s) es) =
           run E (establishConnection E rt p s) es"
  using marker_stays_reset [OF establishConnection_frame(2) assms, of E E rt p s]
  by (simp add: keepAlive_def)

theorem keepAlive_grace_period_witness:
  "\<not> is_pending (WsReadyState 0 1) \<and> \<not> is_pending (WsOpen 0) \<and>
   \<not> is_pending (Tick 1 200) \<and> \<not> is_pending (Block 0 7) \<and>
   map_of (timers (run node_env
                     (establishConnection node_env 0 0 (run node_env constructor connecting))
                     [WsReadyState 0 1, WsOpen 0, Tick 1 200, Block 0 7])) 2 = Some KeepAlive \<and>
   step node_env
     (run node_env (establishConnection node_env 0 0 (run node_env constructor connecting))
        [WsReadyState 0 1, WsOpen 0, Tick 1 200, Block 0 7])
     (Tick 2 1000000) =
   run node_env (establishConnection node_env 0 0 (run node_env constructor connecting))
     [WsReadyState 0 1, WsOpen 0, Tick 1 200, Block 0 7]"
  using keepAlive_grace_period
          [of "[WsReadyState 0 1, WsOpen 0, Tick 1 200, Block 0 7]" node_env 1000000 0 0
              "run node_env constructor connecting"]
  by (simp add: eval_defs)

subsection \<open>C8: isConnected\<close>

text \<open>
  Claim C8 says that in every reachable state \<^verbatim>\<open>isConnected()\<close> returns true exactly
  when the flag \<^verbatim>\<open>_isConnected\<close> is set and the transport reports the open state. The
  source compares with \<^verbatim>\<open>WebSocket.OPEN\<close> and neither declares nor imports
  \<^verbatim>\<open>WebSocket\<close>. In a Node.js process without that global, on the connected object
  whose socket is open, the call throws a \<^verbatim>\<open>ReferenceError\<close>. In every state that a run
  can reach: without the global the call returns \<^verbatim>\<open>false\<close> when the flag is clear and
  throws when it is set, so it never returns true; with the global it returns the boolean
  the claim describes.
\<close>

theorem isConnected_throws_without_global:
  "priv_isConnected (run node_env constructor connected) = True \<and>
   transport_open 1 (run node_env constructor connected) = True \<and>
   isConnected node_env (run node_env constructor connected) = Inl ReferenceError \<and>
   isConnected E (run E constructor es) =
     (case WebSocket_OPEN E of
        None \<Rightarrow>
          if priv_isConnected (run E constructor es) then Inl ReferenceError else Inr False
      | Some opn \<Rightarrow>
          Inr (priv_isConnected (run E constructor es) \<and>
               transport_open opn (run E constructor es)))"
proof -
  have "isConnected E (run E constructor es) =
     (case WebSocket_OPEN E of
        None \<Rightarrow>
          if priv_isConnected (run E constructor es) then Inl ReferenceError else Inr False
      | Some opn \<Rightarrow>
          Inr (priv_isConnected (run E constructor es) \<and>
               transport_open opn (run E constructor es)))"
    using wf_reachable [of E es]
    by (auto simp: isConnected_def transport_open_def wf_def split: option.splits)
  moreover have "priv_isConnected (run node_env constructor connected) = True \<and>
    transport_open 1 (run node_env constructor connected) = True \<and>
    isConnected node_env (run node_env constructor connected) = Inl ReferenceError"
    by (simp add: eval_defs isConnected_def transport_open_def)
  ultimately show ?thesis by simp
qed

subsection \<open>C9: a listener that throws\<close>




subsection \<open>C10: isConnected before the first connection\<close>

text \<open>
  Claim C10 says that \<^verbatim>\<open>isConnected()\<close> throws on an object for which no provider has
  been constructed. On a new object, and without a global \<^verbatim>\<open>WebSocket\<close>, it returns
  \<^verbatim>\<open>false\<close>; \<^verbatim>\<open>waitConnection()\<close> and the first tick of its interval leave no exception
  behind.
\<close>

theorem isConnected_on_new_object:
  "isConnected node_env constructor = Inr False \<and>
   log (run node_env constructor [CallWaitConnection, Tick 0 100]) = []"
  by (simp add: eval_defs isConnected_def)

text \<open>
  Claim C10, amended: in every state that a run can reach and in which the object holds no
  provider, with or without a global \<^verbatim>\<open>WebSocket\<close>, \<^verbatim>\<open>isConnected()\<close> returns
  \<^verbatim>\<open>false\<close> and does not throw (the flag is clear there, and \<^verbatim>\<open>&&\<close> does not evaluate
  its right operand); \<^verbatim>\<open>waitConnection()\<close> and the callback of its interval raise no
  exception there.
\<close>

theorem isConnected_before_first_transport:
  assumes "provider (run E constructor es) = None"
  shows "priv_isConnected (run E constructor es) = False \<and>
         isConnected E (run E constructor es) = Inr False \<and>
         log (snd (waitConnection (run E constructor es))) = log (run E constructor es) \<and>
         log (wait_poll tid (fst (waitConnection (run E constructor es)))
                (snd (waitConnection (run E constructor es)))) =
           log (run E constructor es)"
  using wf_reachable [of E es] assms
  by (simp add: isConnected_def wf_def waitConnection_def new_promise_def setInterval_def
        wait_poll_def resolve_def clearInterval_def)

theorem isConnected_before_first_transport_witness:
  "provider (run node_env constructor connecting) = None \<and>
   isConnected node_env (run node_env constructor connecting) = Inr False \<and>
   log (wait_poll 1 (fst (waitConnection (run node_env constructor connecting)))
          (snd (waitConnection (run node_env constructor connecting)))) = []"
  using isConnected_before_first_transport [of node_env connecting 1]
  by (simp add: run_connecting isConnected_def)

end
